theory Spec2Isabelle
  imports Main
begin

section \<open>Python values and the operations the module applies to them\<close>

text \<open>
  The module \<^verbatim>\<open>graphics/midpoint_circle.py\<close> is dynamically typed: its validators take
  an argument of any type and probe it with \<^verbatim>\<open>arg[0]\<close>, \<^verbatim>\<open>len(arg)\<close> and \<^verbatim>\<open>int(arg)\<close>.
  The values covered here are \<^verbatim>\<open>None\<close>, booleans, integers (unbounded), strings
  (a \<open>char\<close> is the code point of the same number, 0 to 255), tuples and lists, and of
  the floating-point numbers those that \<^verbatim>\<open>int()\<close> refuses: the two infinities and NaN.
  Finite floating-point numbers, whose arithmetic is not modelled, bytes, dictionaries and
  user-defined classes are outside this universe.
\<close>

datatype pyfloat = PosInf | NegInf | NaN

datatype pyval =
    PNone
  | PBool bool
  | PInt int
  | PFloat pyfloat
  | PStr string
  | PTuple "pyval list"
  | PList "pyval list"

text \<open>
  The exceptions that occur: \<^verbatim>\<open>TypeError\<close>, \<^verbatim>\<open>ValueError\<close>, \<^verbatim>\<open>IndexError\<close> and
  \<^verbatim>\<open>OverflowError\<close>. The message strings are not modelled.
\<close>

datatype error = TypeError | ValueError | IndexError | OverflowError

text \<open>
  Truth value of an object, as \<^verbatim>\<open>and\<close> and \<^verbatim>\<open>if\<close> test it; a float is falsy only when
  it is zero, so the infinities and NaN are truthy.
\<close>

fun truthy :: "pyval \<Rightarrow> bool" where
  "truthy PNone = False"
| "truthy (PBool b) = b"
| "truthy (PInt i) = (i \<noteq> 0)"
| "truthy (PFloat f) = True"
| "truthy (PStr s) = (s \<noteq> [])"
| "truthy (PTuple xs) = (xs \<noteq> [])"
| "truthy (PList xs) = (xs \<noteq> [])"

text \<open>
  \<^verbatim>\<open>arg[i]\<close> for the literal indices 0 and 1 the module uses: a \<^verbatim>\<open>TypeError\<close> on an
  object that is not subscriptable, an \<^verbatim>\<open>IndexError\<close> out of range; indexing a string
  gives the one-character string.
\<close>

fun py_index :: "pyval \<Rightarrow> nat \<Rightarrow> error + pyval" where
  "py_index (PStr s) i = (if i < length s then Inr (PStr [s ! i]) else Inl IndexError)"
| "py_index (PTuple xs) i = (if i < length xs then Inr (xs ! i) else Inl IndexError)"
| "py_index (PList xs) i = (if i < length xs then Inr (xs ! i) else Inl IndexError)"
| "py_index v i = Inl TypeError"

text \<open>\<^verbatim>\<open>len(arg)\<close>: a \<^verbatim>\<open>TypeError\<close> on an object without a length.\<close>

fun py_len :: "pyval \<Rightarrow> error + nat" where
  "py_len (PStr s) = Inr (length s)"
| "py_len (PTuple xs) = Inr (length xs)"
| "py_len (PList xs) = Inr (length xs)"
| "py_len v = Inl TypeError"

text \<open>
  The numbers among the values: an integer, or a boolean, which Python's arithmetic
  treats as the integer 0 or 1.
\<close>

fun as_num :: "pyval \<Rightarrow> int option" where
  "as_num (PInt i) = Some i"
| "as_num (PBool b) = Some (if b then 1 else 0)"
| "as_num v = None"

text \<open>
  \<^verbatim>\<open>a - b\<close> and \<^verbatim>\<open>a + b\<close>. Subtraction is defined on numbers only and raises a
  \<^verbatim>\<open>TypeError\<close> otherwise. Addition of two strings (or two sequences) would concatenate
  them in Python; in this module every operand of a \<^verbatim>\<open>+\<close> is either added to an integer
  loop variable, or is also an operand of a \<^verbatim>\<open>-\<close> in the next entry of the same list
  display, so a non-numeric operand always ends in the \<^verbatim>\<open>TypeError\<close> modelled here and
  the points a function returns are pairs of integers. An infinity or NaN never reaches
  an arithmetic operation of the module: every operand has passed \<^verbatim>\<open>_is_int\<close> before,
  which raises or returns false on it.
\<close>

definition py_sub :: "pyval \<Rightarrow> pyval \<Rightarrow> error + int" where
  "py_sub a b =
     (case as_num a of None \<Rightarrow> Inl TypeError
      | Some i \<Rightarrow> (case as_num b of None \<Rightarrow> Inl TypeError | Some j \<Rightarrow> Inr (i - j)))"

definition py_add :: "pyval \<Rightarrow> pyval \<Rightarrow> error + int" where
  "py_add a b =
     (case as_num a of None \<Rightarrow> Inl TypeError
      | Some i \<Rightarrow> (case as_num b of None \<Rightarrow> Inl TypeError | Some j \<Rightarrow> Inr (i + j)))"

text \<open>\<^verbatim>\<open>range(a, b)\<close> as the list of its elements.\<close>

definition py_range :: "int \<Rightarrow> int \<Rightarrow> int list" where
  "py_range a b = [a..b - 1]"

subsection \<open>Which strings \<^verbatim>\<open>int()\<close> accepts\<close>

text \<open>
  \<^verbatim>\<open>int(s)\<close> on a string strips surrounding whitespace, takes an optional sign and then
  needs decimal digits, where single underscores may separate digits. The whitespace
  stripped is tab, line feed, vertical tab, form feed, carriage return and space, and of
  the code points from 128 on the two that are whitespace, 0x85 and 0xA0; the separators
  0x1C to 0x1F, which \<^verbatim>\<open>str.strip\<close> removes, are not stripped by \<^verbatim>\<open>int()\<close>. A literal of
  more than 4300 digits (the interpreter's default limit; sign and underscores are not
  counted) is refused with a \<^verbatim>\<open>ValueError\<close>.
\<close>

definition is_space :: "char \<Rightarrow> bool" where
  "is_space c = (c \<in> set [CHR 0x09, CHR 0x0A, CHR 0x0B, CHR 0x0C, CHR 0x0D, CHR 0x20,
                          CHR 0x85, CHR 0xA0])"

definition int_max_str_digits :: nat where
  "int_max_str_digits = 4300"

definition is_digit :: "char \<Rightarrow> bool" where
  "is_digit c = (c \<in> set ''0123456789'')"

definition strip :: "string \<Rightarrow> string" where
  "strip s = dropWhile is_space (rev (dropWhile is_space (rev s)))"

text \<open>The flag says whether the previous character was a digit.\<close>

fun int_body :: "bool \<Rightarrow> string \<Rightarrow> bool" where
  "int_body prev [] = prev"
| "int_body prev (c # cs) =
     (if is_digit c then int_body True cs
      else if c = CHR ''_'' \<and> prev then int_body False cs
      else False)"

definition int_literal :: "string \<Rightarrow> bool" where
  "int_literal s =
     (case strip s of
        [] \<Rightarrow> False
      | c # cs \<Rightarrow>
          (if c = CHR ''+'' \<or> c = CHR ''-'' then int_body False cs
           else int_body False (c # cs))
          \<and> length (filter is_digit (c # cs)) \<le> int_max_str_digits)"

section \<open>The validators\<close>

text \<open>
  \<^verbatim>\<open>
  def _is_int(arg):
      try:
          int(arg)
          return True
      except TypeError:
          pass
      except ValueError:
          pass
      return False
  \<close>
  \<^verbatim>\<open>int()\<close> raises a \<^verbatim>\<open>TypeError\<close> on \<^verbatim>\<open>None\<close>, a tuple or a list and a \<^verbatim>\<open>ValueError\<close> on a
  string that is no integer literal and on NaN; both are caught. On an infinity it
  raises an \<^verbatim>\<open>OverflowError\<close>, for which there is no \<^verbatim>\<open>except\<close> clause: the exception
  leaves the function.
\<close>

fun is_int :: "pyval \<Rightarrow> error + bool" where
  "is_int (PInt i) = Inr True"
| "is_int (PBool b) = Inr True"
| "is_int (PStr s) = Inr (int_literal s)"
| "is_int (PFloat NaN) = Inr False"
| "is_int (PFloat PosInf) = Inl OverflowError"
| "is_int (PFloat NegInf) = Inl OverflowError"
| "is_int PNone = Inr False"
| "is_int (PTuple xs) = Inr False"
| "is_int (PList xs) = Inr False"

text \<open>
  \<^verbatim>\<open>
  def _is_indexable(arg):
      try:
          return arg[0] and len(arg) == 2
      except TypeError:
          pass
      except IndexError:
          pass
      return False
  \<close>
  \<^verbatim>\<open>x and y\<close> evaluates to \<^verbatim>\<open>x\<close> itself when \<^verbatim>\<open>x\<close> is falsy, so the function returns
  an object, not always a boolean.
\<close>

definition is_indexable :: "pyval \<Rightarrow> pyval" where
  "is_indexable arg =
     (case py_index arg 0 of
        Inl e \<Rightarrow> PBool False
      | Inr a0 \<Rightarrow>
          if truthy a0
          then (case py_len arg of Inl e \<Rightarrow> PBool False | Inr n \<Rightarrow> PBool (n = 2))
          else a0)"

text \<open>
  \<^verbatim>\<open>
  def _validate_input(arg):
      if _is_indexable(arg):
          if _is_int(arg[0]) and _is_int(arg[1]):
              return True
          raise ValueError(...)
      raise TypeError(...)
  \<close>
  \<^verbatim>\<open>and\<close> evaluates its second operand only when the first is true; an exception that
  leaves \<^verbatim>\<open>_is_int\<close> leaves this function too.
\<close>

definition validate_input :: "pyval \<Rightarrow> error + bool" where
  "validate_input arg =
     (if truthy (is_indexable arg)
      then (case py_index arg 0 of
              Inl e \<Rightarrow> Inl e
            | Inr a0 \<Rightarrow>
               (case is_int a0 of
                  Inl e \<Rightarrow> Inl e
                | Inr i0 \<Rightarrow>
                    if i0
                    then (case py_index arg 1 of
                            Inl e \<Rightarrow> Inl e
                          | Inr a1 \<Rightarrow>
                             (case is_int a1 of
                                Inl e \<Rightarrow> Inl e
                              | Inr i1 \<Rightarrow> if i1 then Inr True else Inl ValueError))
                    else Inl ValueError))
      else Inl TypeError)"

section \<open>The quadrant reflector\<close>

text \<open>
  \<^verbatim>\<open>
  def _get_circle_quadrants(center, current_point):
      circle_vectors = []
      if _validate_input(center) and _validate_input(current_point):
          circle_vectors = [
              (center[0] - current_point[0], center[1] + current_point[1]),
              (center[0] - current_point[1], center[1] - current_point[0]),
              (center[0] + current_point[0], center[1] - current_point[1]),
              (center[0] + current_point[1], center[1] + current_point[0]),
          ]
      return circle_vectors
  \<close>
  The eight entries are evaluated in the order written; the first failure is the result.
\<close>

definition bind_err :: "error + 'a \<Rightarrow> ('a \<Rightarrow> error + 'b) \<Rightarrow> error + 'b" where
  "bind_err m f = (case m of Inl e \<Rightarrow> Inl e | Inr v \<Rightarrow> f v)"

definition quadrant_display :: "pyval \<Rightarrow> pyval \<Rightarrow> error + (int \<times> int) list" where
  "quadrant_display center current_point =
     bind_err (py_index center 0) (\<lambda>c0.
     bind_err (py_index current_point 0) (\<lambda>p0.
     bind_err (py_sub c0 p0) (\<lambda>a1.
     bind_err (py_index center 1) (\<lambda>c1.
     bind_err (py_index current_point 1) (\<lambda>p1.
     bind_err (py_add c1 p1) (\<lambda>b1.
     bind_err (py_sub c0 p1) (\<lambda>a2.
     bind_err (py_sub c1 p0) (\<lambda>b2.
     bind_err (py_add c0 p0) (\<lambda>a3.
     bind_err (py_sub c1 p1) (\<lambda>b3.
     bind_err (py_add c0 p1) (\<lambda>a4.
     bind_err (py_add c1 p0) (\<lambda>b4.
       Inr [(a1, b1), (a2, b2), (a3, b3), (a4, b4)]))))))))))))"

definition get_circle_quadrants :: "pyval \<Rightarrow> pyval \<Rightarrow> error + (int \<times> int) list" where
  "get_circle_quadrants center current_point =
     bind_err (validate_input center) (\<lambda>v1.
       if v1
       then bind_err (validate_input current_point) (\<lambda>v2.
              if v2 then quadrant_display center current_point else Inr [])
       else Inr [])"

section \<open>The interior scanner\<close>

text \<open>
  \<^verbatim>\<open>
  def _get_vectors_inside_circle(center, radius):
      circle_vectors = []
      if _validate_input(center) and _is_int(radius):
          boundary = range(-radius, radius + 1)
          for y in boundary:
              for x in boundary:
                  if x ** 2 + y ** 2 <= radius ** 2:
                      circle_vectors.append((center[0] + x, center[1] + y))
      return circle_vectors
  \<close>
  The two loops run over the elements of the range, carrying the list built so far.
  \<^verbatim>\<open>-radius\<close> raises a \<^verbatim>\<open>TypeError\<close> on a string, also on one that \<^verbatim>\<open>int()\<close> accepts; a
  boolean radius counts as 0 or 1.
\<close>

fun scan_row :: "pyval \<Rightarrow> int \<Rightarrow> int \<Rightarrow> int list \<Rightarrow> (int \<times> int) list
                  \<Rightarrow> error + (int \<times> int) list" where
  "scan_row center radius y [] circle_vectors = Inr circle_vectors"
| "scan_row center radius y (x # xs) circle_vectors =
     (if x ^ 2 + y ^ 2 \<le> radius ^ 2
      then (case py_index center 0 of
              Inl e \<Rightarrow> Inl e
            | Inr c0 \<Rightarrow>
               (case py_add c0 (PInt x) of
                  Inl e \<Rightarrow> Inl e
                | Inr a \<Rightarrow>
                   (case py_index center 1 of
                      Inl e \<Rightarrow> Inl e
                    | Inr c1 \<Rightarrow>
                       (case py_add c1 (PInt y) of
                          Inl e \<Rightarrow> Inl e
                        | Inr b \<Rightarrow>
                            scan_row center radius y xs (circle_vectors @ [(a, b)])))))
      else scan_row center radius y xs circle_vectors)"

fun scan_rows :: "pyval \<Rightarrow> int \<Rightarrow> int list \<Rightarrow> int list \<Rightarrow> (int \<times> int) list
                   \<Rightarrow> error + (int \<times> int) list" where
  "scan_rows center radius boundary [] circle_vectors = Inr circle_vectors"
| "scan_rows center radius boundary (y # ys) circle_vectors =
     (case scan_row center radius y boundary circle_vectors of
        Inl e \<Rightarrow> Inl e
      | Inr circle_vectors' \<Rightarrow> scan_rows center radius boundary ys circle_vectors')"

definition get_vectors_inside_circle :: "pyval \<Rightarrow> pyval \<Rightarrow> error + (int \<times> int) list" where
  "get_vectors_inside_circle center radius =
     bind_err (validate_input center) (\<lambda>v.
     bind_err (if v then is_int radius else Inr False) (\<lambda>guard.
       if guard
       then (case as_num radius of
               None \<Rightarrow> Inl TypeError
             | Some r \<Rightarrow>
                 (let boundary = py_range (- r) (r + 1)
                  in scan_rows center r boundary boundary []))
       else Inr []))"

section \<open>The perimeter generator\<close>

text \<open>
  \<^verbatim>\<open>
  def get_circle_vectors(center, radius, fill=False):
      circle_vectors = []
      if _validate_input(center) and _is_int(radius):
          x = -radius
          y = 0
          error = 2 - 2 * radius
          while x < 0:
              circle_vectors.extend(_get_circle_quadrants(center, (x, y)))
              radius = error
              if radius <= y:
                  y += 1
                  error += y * 2 + 1
              if radius > x or error > y:
                  x += 1
                  error += x * 2 + 1
          if fill:
              circle_vectors.extend(_get_vectors_inside_circle(center, radius))
      return circle_vectors
  \<close>
  One pass through the loop body changes the four integer variables as follows; the
  result is \<open>(x, y, error, radius)\<close>.
\<close>

definition loop_step :: "int \<Rightarrow> int \<Rightarrow> int \<Rightarrow> int \<times> int \<times> int \<times> int" where
  "loop_step x y err =
     (let radius = err;
          (y1, err1) = (if radius \<le> y then (y + 1, err + ((y + 1) * 2 + 1)) else (y, err));
          (x2, err2) = (if radius > x \<or> err1 > y1
                        then (x + 1, err1 + ((x + 1) * 2 + 1)) else (x, err1))
      in (x2, y1, err2, radius))"

text \<open>
  The loop, with the list built so far; it returns the list and the final value of the
  variable \<^verbatim>\<open>radius\<close>. A failure of the quadrant reflector leaves the loop.
\<close>

function circle_loop :: "pyval \<Rightarrow> (int \<times> int) list \<Rightarrow> int \<Rightarrow> int \<Rightarrow> int \<Rightarrow> int
                          \<Rightarrow> error + ((int \<times> int) list \<times> int)" where
  "circle_loop center circle_vectors x y err radius =
     (if x < 0
      then (case get_circle_quadrants center (PTuple [PInt x, PInt y]) of
              Inl e \<Rightarrow> Inl e
            | Inr q \<Rightarrow>
               (case loop_step x y err of
                  (x', y', err', radius') \<Rightarrow>
                     circle_loop center (circle_vectors @ q) x' y' err' radius'))
      else Inr (circle_vectors, radius))"
  by pat_completeness auto
termination
  apply (relation "measures [\<lambda>(c, vs, x, y, e, r). nat (- x),
                             \<lambda>(c, vs, x, y, e, r). nat (- y),
                             \<lambda>(c, vs, x, y, e, r). nat (x - e + 1)]")
   apply simp
  apply (auto simp: loop_step_def Let_def split: if_splits)
  done

definition get_circle_vectors :: "pyval \<Rightarrow> pyval \<Rightarrow> bool \<Rightarrow> error + (int \<times> int) list" where
  "get_circle_vectors center radius fill =
     bind_err (validate_input center) (\<lambda>v.
     bind_err (if v then is_int radius else Inr False) (\<lambda>guard.
       if guard
       then (case as_num radius of
               None \<Rightarrow> Inl TypeError
             | Some r \<Rightarrow>
                 bind_err (circle_loop center [] (- r) 0 (2 - 2 * r) r) (\<lambda>(circle_vectors, radius').
                   if fill
                   then bind_err (get_vectors_inside_circle center (PInt radius')) (\<lambda>inside.
                          Inr (circle_vectors @ inside))
                   else Inr circle_vectors))
       else Inr []))"

section \<open>Notions used to state the properties\<close>

text \<open>
  A coordinate argument of the declared type \<^verbatim>\<open>Vector2D\<close>: an object whose items 0 and 1
  are the integers \<open>a\<close> and \<open>b\<close>.
\<close>

definition has_coords :: "pyval \<Rightarrow> int \<Rightarrow> int \<Rightarrow> bool" where
  "has_coords p a b = (py_index p 0 = Inr (PInt a) \<and> py_index p 1 = Inr (PInt b))"

text \<open>
  The variables \<open>(x, y, error, radius)\<close> of the perimeter loop after at most \<open>n\<close> passes
  through its body, started in the state \<open>s\<close>: a pass is made while \<^verbatim>\<open>x < 0\<close> holds, and
  the state stays as it is once the loop has been left.
\<close>

primrec loop_iter :: "nat \<Rightarrow> int \<times> int \<times> int \<times> int \<Rightarrow> int \<times> int \<times> int \<times> int" where
  "loop_iter 0 s = s"
| "loop_iter (Suc n) s =
     loop_iter n (case s of (x, y, err, radius) \<Rightarrow> if x < 0 then loop_step x y err else s)"

section \<open>Auxiliary facts\<close>

lemma validate_loop_point: "x < 0 \<Longrightarrow> validate_input (PTuple [PInt x, PInt y]) = Inr True"
  by (simp add: validate_input_def is_indexable_def)

lemma has_coords_pair: "has_coords (PTuple [PInt a, PInt b]) a b"
  by (simp add: has_coords_def)

lemma quadrants_int:
  assumes "validate_input center = Inr True" and "validate_input p = Inr True"
    and "has_coords center cx cy" and "has_coords p ox oy"
  shows "get_circle_quadrants center p =
           Inr [(cx - ox, cy + oy), (cx - oy, cy - ox), (cx + ox, cy - oy), (cx + oy, cy + ox)]"
  using assms
  by (simp add: get_circle_quadrants_def quadrant_display_def bind_err_def py_sub_def
      py_add_def has_coords_def)

lemma scan_row_int:
  assumes "has_coords center cx cy"
  shows "scan_row center r y xs acc =
           Inr (acc @ [(cx + x, cy + y). x \<leftarrow> xs, x ^ 2 + y ^ 2 \<le> r ^ 2])"
  using assms
  by (induction xs arbitrary: acc) (auto simp: py_add_def has_coords_def)

lemma scan_rows_int:
  assumes "has_coords center cx cy"
  shows "scan_rows center r b ys acc =
           Inr (acc @ [(cx + x, cy + y). y \<leftarrow> ys, x \<leftarrow> b, x ^ 2 + y ^ 2 \<le> r ^ 2])"
  by (induction ys arbitrary: acc) (simp_all add: scan_row_int [OF assms])

lemma inside_int:
  assumes "validate_input center = Inr True" and "has_coords center cx cy"
  shows "get_vectors_inside_circle center (PInt r) =
           Inr [(cx + x, cy + y). y \<leftarrow> [- r..r], x \<leftarrow> [- r..r], x ^ 2 + y ^ 2 \<le> r ^ 2]"
  using assms(1)
  by (simp add: get_vectors_inside_circle_def bind_err_def py_range_def Let_def
      scan_rows_int [OF assms(2)])

lemma circle_loop_int:
  assumes "validate_input center = Inr True" and "has_coords center cx cy"
  shows "\<exists>n vs'. 0 \<le> fst (loop_iter n (x, y, err, radius)) \<and> 4 dvd length vs' \<and>
           circle_loop center vs x y err radius =
             Inr (vs @ vs', snd (snd (snd (loop_iter n (x, y, err, radius)))))"
  using assms
proof (induction center vs x y err radius rule: circle_loop.induct)
  case (1 center vs x y err radius)
  note valid = "1.prems"(1) and coords = "1.prems"(2)
  show ?case
  proof (cases "x < 0")
    case False
    then have "circle_loop center vs x y err radius = Inr (vs @ [], radius)"
      by (subst circle_loop.simps) simp
    moreover from False have "0 \<le> fst (loop_iter 0 (x, y, err, radius))"
      by simp
    ultimately show ?thesis
      by (metis dvd_0_right list.size(3) loop_iter.simps(1) snd_conv)
  next
    case True
    define q where "q = [(cx - x, cy + y), (cx - y, cy - x), (cx + x, cy - y), (cx + y, cy + x)]"
    obtain x' y' err' radius' where step: "loop_step x y err = (x', y', err', radius')"
      by (metis prod_cases4)
    have quad: "get_circle_quadrants center (PTuple [PInt x, PInt y]) = Inr q"
      unfolding q_def
      by (rule quadrants_int [OF valid validate_loop_point [OF True] coords has_coords_pair])
    from "1.IH" [OF True quad step [symmetric] refl refl valid coords]
    obtain n vs' where n: "0 \<le> fst (loop_iter n (x', y', err', radius'))"
      and len: "4 dvd length vs'"
      and res: "circle_loop center (vs @ q) x' y' err' radius' =
                  Inr ((vs @ q) @ vs', snd (snd (snd (loop_iter n (x', y', err', radius')))))"
      by blast
    have unfold: "circle_loop center vs x y err radius =
                    circle_loop center (vs @ q) x' y' err' radius'"
      using True quad step by (subst circle_loop.simps) simp
    have it: "loop_iter (Suc n) (x, y, err, radius) = loop_iter n (x', y', err', radius')"
      using True step by simp
    have "length q = 4"
      by (simp add: q_def)
    then have "length (q @ vs') = 4 + length vs'"
      by simp
    with len have "4 dvd length (q @ vs')"
      by presburger
    moreover have "circle_loop center vs x y err radius =
        Inr (vs @ (q @ vs'), snd (snd (snd (loop_iter (Suc n) (x, y, err, radius)))))"
      unfolding unfold it res by simp
    moreover have "0 \<le> fst (loop_iter (Suc n) (x, y, err, radius))"
      unfolding it by (rule n)
    ultimately show ?thesis
      by blast
  qed
qed

lemma circle_loop_exit:
  "0 \<le> x \<Longrightarrow> circle_loop center vs x y err radius = Inr (vs, radius)"
  by (subst circle_loop.simps) simp

lemma inside_bad_radius:
  assumes "validate_input center = Inr True" and "is_int radius = Inr False"
  shows "get_vectors_inside_circle center radius = Inr []"
  using assms by (simp add: get_vectors_inside_circle_def bind_err_def)

lemma inside_negative:
  assumes "validate_input center = Inr True" and "r < 0"
  shows "get_vectors_inside_circle center (PInt r) = Inr []"
  using assms
  by (simp add: get_vectors_inside_circle_def bind_err_def py_range_def Let_def)

lemma get_circle_vectors_int:
  assumes "validate_input center = Inr True"
    and "circle_loop center [] (- r) 0 (2 - 2 * r) r = Inr (vs, rad)"
  shows "get_circle_vectors center (PInt r) False = Inr vs"
    and "get_vectors_inside_circle center (PInt rad) = Inr inside
         \<Longrightarrow> get_circle_vectors center (PInt r) True = Inr (vs @ inside)"
  using assms by (simp_all add: get_circle_vectors_def bind_err_def)

lemma inside_total:
  assumes "validate_input center = Inr True" and "has_coords center cx cy"
  shows "\<exists>inside. get_vectors_inside_circle center (PInt r) = Inr inside"
  using inside_int [OF assms] by blast

lemma loop_fixture:
  "circle_loop (PTuple [PInt 50, PInt 50]) [] (- 2) 0 (2 - 2 * 2) 2 =
     Inr ([(52, 50), (50, 52), (48, 50), (50, 48), (52, 51), (49, 52), (48, 49), (51, 48),
           (51, 52), (48, 51), (49, 48), (52, 49)], 5)"
  by code_simp

lemma loop_step_invariant:
  assumes "loop_step x y err = (x', y', err', radius')"
    and "err = (x + 1) ^ 2 + (y + 1) ^ 2 - R ^ 2" and "0 \<le> y"
  shows "err' = (x' + 1) ^ 2 + (y' + 1) ^ 2 - R ^ 2 \<and> 0 \<le> y' \<and> radius' = err
         \<and> (x' = x \<or> x' = x + 1)"
  using assms
  by (auto simp: loop_step_def Let_def power2_eq_square algebra_simps split: if_splits)

lemma circle_loop_final_radius:
  assumes "circle_loop center vs x y err radius = Inr (vs', rad)"
    and "x < 0" and "err = (x + 1) ^ 2 + (y + 1) ^ 2 - R ^ 2" and "0 \<le> y"
  shows "\<exists>y'. 0 \<le> y' \<and> rad = (y' + 1) ^ 2 - R ^ 2"
  using assms
proof (induction center vs x y err radius rule: circle_loop.induct)
  case (1 center vs x y err radius)
  obtain x' y' err' radius' where step: "loop_step x y err = (x', y', err', radius')"
    by (metis prod_cases4)
  from loop_step_invariant [OF step "1.prems"(3,4)]
  have inv: "err' = (x' + 1) ^ 2 + (y' + 1) ^ 2 - R ^ 2" and y': "0 \<le> y'"
    and r': "radius' = err" and x': "x' = x \<or> x' = x + 1"
    by simp_all
  have eq: "circle_loop center vs x y err radius =
              (case get_circle_quadrants center (PTuple [PInt x, PInt y]) of
                 Inl e \<Rightarrow> Inl e
               | Inr q \<Rightarrow> circle_loop center (vs @ q) x' y' err' radius')"
    using "1.prems"(2) step by (subst circle_loop.simps) (simp split: sum.splits)
  obtain q where quad: "get_circle_quadrants center (PTuple [PInt x, PInt y]) = Inr q"
  proof (cases "get_circle_quadrants center (PTuple [PInt x, PInt y])")
    case (Inl e)
    with eq "1.prems"(1) show ?thesis
      by simp
  next
    case (Inr q)
    with that show ?thesis .
  qed
  have unfold: "circle_loop center vs x y err radius =
                  circle_loop center (vs @ q) x' y' err' radius'"
    unfolding eq quad by simp
  show ?case
  proof (cases "x' < 0")
    case True
    from "1.prems"(1) have "circle_loop center (vs @ q) x' y' err' radius' = Inr (vs', rad)"
      unfolding unfold .
    from "1.IH" [OF "1.prems"(2) quad step [symmetric] refl refl this True inv y']
    show ?thesis .
  next
    case False
    with x' "1.prems"(2) have "x = - 1"
      by auto
    moreover from False have "circle_loop center (vs @ q) x' y' err' radius' =
        Inr (vs @ q, radius')"
      by (simp add: circle_loop_exit)
    with "1.prems"(1) have "rad = radius'"
      unfolding unfold by simp
    ultimately have "rad = (y + 1) ^ 2 - R ^ 2"
      using r' "1.prems"(3) by simp
    with "1.prems"(4) show ?thesis
      by blast
  qed
qed

lemma no_square_between:
  assumes "1 \<le> (r::int)" and "0 \<le> y"
  shows "(y + 1) ^ 2 - r ^ 2 \<noteq> r"
proof
  assume eq: "(y + 1) ^ 2 - r ^ 2 = r"
  show False
  proof (cases "y + 1 \<le> r")
    case True
    with assms have "(y + 1) ^ 2 \<le> r ^ 2"
      by (intro power_mono) auto
    with eq assms show False
      by simp
  next
    case False
    then have "r + 1 \<le> y + 1"
      by simp
    with assms have "(r + 1) ^ 2 \<le> (y + 1) ^ 2"
      by (intro power_mono) auto
    with eq assms show False
      by (simp add: power2_eq_square algebra_simps)
  qed
qed

lemma final_radius_differs:
  assumes "circle_loop center [] (- r) 0 (2 - 2 * r) r = Inr (vs, rad)" and "1 \<le> r"
  shows "rad \<noteq> r"
proof -
  have e: "2 - 2 * r = (- r + 1) ^ 2 + (0 + 1) ^ 2 - r ^ 2"
    by (simp add: power2_eq_square algebra_simps)
  have x: "- r < 0"
    using assms(2) by simp
  have y: "(0::int) \<le> 0"
    by simp
  from circle_loop_final_radius [OF assms(1) x e y]
  obtain y' where y': "0 \<le> y'" and rad: "rad = (y' + 1) ^ 2 - r ^ 2"
    by blast
  from no_square_between [OF assms(2) y'] show ?thesis
    unfolding rad .
qed

section \<open>The properties\<close>

subsection \<open>C1: a radius that is not integer-convertible, at the entry point\<close>

text \<open>
  C1 as written says that \<^verbatim>\<open>get_circle_vectors\<close>, given a center that passes validation and
  a radius that is not integer-convertible, signals a \<^verbatim>\<open>ValueError\<close>. It does not: where
  \<^verbatim>\<open>_is_int(radius)\<close> returns false, the guard
  \<^verbatim>\<open>if _validate_input(center) and _is_int(radius)\<close> is false, the body is skipped and
  the empty list is returned. At the center \<^verbatim>\<open>(50, 50)\<close> and the radius \<^verbatim>\<open>"c"\<close>:
\<close>

theorem get_circle_vectors_bad_radius_counterexample:
  "validate_input (PTuple [PInt 50, PInt 50]) = Inr True
   \<and> is_int (PStr ''c'') = Inr False
   \<and> get_circle_vectors (PTuple [PInt 50, PInt 50]) (PStr ''c'') False = Inr []
   \<and> get_circle_vectors (PTuple [PInt 50, PInt 50]) (PStr ''c'') False \<noteq> Inl ValueError"
  by (simp add: get_circle_vectors_def bind_err_def validate_input_def is_indexable_def
      int_literal_def strip_def is_space_def is_digit_def)

text \<open>
  C1, as the code has it: for every center that passes validation and every radius on
  which \<^verbatim>\<open>_is_int\<close> returns false (\<^verbatim>\<open>int()\<close> raises a \<^verbatim>\<open>TypeError\<close> or a \<^verbatim>\<open>ValueError\<close>),
  \<^verbatim>\<open>get_circle_vectors\<close> returns the empty sequence and signals no failure, whatever the
  value of \<^verbatim>\<open>fill\<close>. A radius on which \<^verbatim>\<open>_is_int\<close> itself raises (an infinite float, see C8)
  is not covered by this statement.
\<close>

theorem get_circle_vectors_bad_radius_empty:
  assumes "validate_input center = Inr True" and "is_int radius = Inr False"
  shows "get_circle_vectors center radius fill = Inr []"
  using assms by (simp add: get_circle_vectors_def bind_err_def)

theorem get_circle_vectors_bad_radius_empty_witness:
  "validate_input (PTuple [PInt 50, PInt 50]) = Inr True
   \<and> is_int (PStr ''c'') = Inr False
   \<and> get_circle_vectors (PTuple [PInt 50, PInt 50]) (PStr ''c'') True = Inr []"
proof -
  have v: "validate_input (PTuple [PInt 50, PInt 50]) = Inr True"
    by (simp add: validate_input_def is_indexable_def)
  have r: "is_int (PStr ''c'') = Inr False"
    by (simp add: int_literal_def strip_def is_space_def is_digit_def)
  from get_circle_vectors_bad_radius_empty [OF v r, of True] v r show ?thesis
    by simp
qed

subsection \<open>C2: the radius the fill pass uses\<close>

text \<open>
  C2: for every center \<open>(cx, cy)\<close> that passes validation and every integer radius, with
  \<^verbatim>\<open>fill\<close> true the points appended after the perimeter loop are exactly the output of
  the interior scanner for the value the variable \<^verbatim>\<open>radius\<close> has when the loop is left,
  not for the caller's radius argument: the result is the perimeter (the result for
  \<^verbatim>\<open>fill\<close> false) followed by the scan for that final value, and for every radius
  \<open>r \<ge> 1\<close> the final value differs from \<open>r\<close>.
\<close>

theorem fill_uses_final_radius:
  assumes "validate_input center = Inr True" and "has_coords center cx cy"
  shows "\<exists>vs rad inside.
           circle_loop center [] (- r) 0 (2 - 2 * r) r = Inr (vs, rad)
           \<and> get_vectors_inside_circle center (PInt rad) = Inr inside
           \<and> get_circle_vectors center (PInt r) False = Inr vs
           \<and> get_circle_vectors center (PInt r) True = Inr (vs @ inside)
           \<and> (1 \<le> r \<longrightarrow> rad \<noteq> r)"
proof -
  from circle_loop_int [OF assms, of "- r" 0 "2 - 2 * r" r "[]"]
  obtain vs rad where loop: "circle_loop center [] (- r) 0 (2 - 2 * r) r = Inr (vs, rad)"
    by auto
  from inside_total [OF assms, of rad]
  obtain inside where ins: "get_vectors_inside_circle center (PInt rad) = Inr inside"
    by blast
  from get_circle_vectors_int [OF assms(1) loop] ins
  have "get_circle_vectors center (PInt r) False = Inr vs"
    and "get_circle_vectors center (PInt r) True = Inr (vs @ inside)"
    by simp_all
  moreover from final_radius_differs [OF loop] have "1 \<le> r \<longrightarrow> rad \<noteq> r"
    by blast
  ultimately show ?thesis
    using loop ins by blast
qed

theorem fill_uses_final_radius_witness:
  "validate_input (PTuple [PInt 50, PInt 50]) = Inr True
   \<and> has_coords (PTuple [PInt 50, PInt 50]) 50 50 \<and> (1::int) \<le> 2
   \<and> (\<exists>vs inside.
         circle_loop (PTuple [PInt 50, PInt 50]) [] (- 2) 0 (2 - 2 * 2) 2 = Inr (vs, 5)
         \<and> get_vectors_inside_circle (PTuple [PInt 50, PInt 50]) (PInt 5) = Inr inside
         \<and> get_circle_vectors (PTuple [PInt 50, PInt 50]) (PInt 2) True = Inr (vs @ inside))"
proof -
  have v: "validate_input (PTuple [PInt 50, PInt 50]) = Inr True"
    by (simp add: validate_input_def is_indexable_def)
  have h: "has_coords (PTuple [PInt 50, PInt 50]) 50 50"
    by (simp add: has_coords_def)
  from fill_uses_final_radius [OF v h, of 2]
  obtain vs rad inside where
    l: "circle_loop (PTuple [PInt 50, PInt 50]) [] (- 2) 0 (2 - 2 * 2) 2 = Inr (vs, rad)"
    and i: "get_vectors_inside_circle (PTuple [PInt 50, PInt 50]) (PInt rad) = Inr inside"
    and g: "get_circle_vectors (PTuple [PInt 50, PInt 50]) (PInt 2) True = Inr (vs @ inside)"
    by blast
  have one: "(1::int) \<le> 2"
    by simp
  from l have "rad = 5"
    unfolding loop_fixture by simp
  with l i g v h one show ?thesis
    by blast
qed

subsection \<open>C3: the input validator and a first coordinate 0\<close>

text \<open>
  C3 says that the input validator returns true for an argument with two
  integer-convertible elements, in particular for \<^verbatim>\<open>(0, 5)\<close>. On \<^verbatim>\<open>(0, 5)\<close> the code raises
  the \<^verbatim>\<open>TypeError\<close> instead, although the argument has length 2 and both items are
  integers: \<^verbatim>\<open>_is_indexable\<close> returns \<^verbatim>\<open>arg[0] and len(arg) == 2\<close>, which is the falsy
  item 0 itself.
\<close>

theorem validate_input_zero_first_coordinate:
  "validate_input (PTuple [PInt 0, PInt 5]) = Inl TypeError
   \<and> py_len (PTuple [PInt 0, PInt 5]) = Inr 2
   \<and> py_index (PTuple [PInt 0, PInt 5]) 0 = Inr (PInt 0) \<and> is_int (PInt 0) = Inr True
   \<and> py_index (PTuple [PInt 0, PInt 5]) 1 = Inr (PInt 5) \<and> is_int (PInt 5) = Inr True"
  by (simp add: validate_input_def is_indexable_def)

subsection \<open>C4: the fixture outputs\<close>

text \<open>
  C4: \<^verbatim>\<open>get_circle_vectors\<close> returns exactly the fixture outputs: the twelve points for
  center \<^verbatim>\<open>(50, 50)\<close>, radius 2, \<^verbatim>\<open>fill\<close> false; the four points for center \<^verbatim>\<open>(25, 25)\<close>,
  radius 1; and the empty sequence for radius 0 with \<^verbatim>\<open>fill\<close> false, at every center that
  passes validation.
\<close>

theorem get_circle_vectors_fixtures:
  "get_circle_vectors (PTuple [PInt 50, PInt 50]) (PInt 2) False =
     Inr [(52, 50), (50, 52), (48, 50), (50, 48), (52, 51), (49, 52), (48, 49), (51, 48),
          (51, 52), (48, 51), (49, 48), (52, 49)]
   \<and> get_circle_vectors (PTuple [PInt 25, PInt 25]) (PInt 1) False =
       Inr [(26, 25), (25, 26), (24, 25), (25, 24)]
   \<and> (\<forall>center. validate_input center = Inr True
         \<longrightarrow> get_circle_vectors center (PInt 0) False = Inr [])"
proof (intro conjI allI impI)
  show "get_circle_vectors (PTuple [PInt 50, PInt 50]) (PInt 2) False =
     Inr [(52, 50), (50, 52), (48, 50), (50, 48), (52, 51), (49, 52), (48, 49), (51, 48),
          (51, 52), (48, 51), (49, 48), (52, 49)]"
    by code_simp
  show "get_circle_vectors (PTuple [PInt 25, PInt 25]) (PInt 1) False =
       Inr [(26, 25), (25, 26), (24, 25), (25, 24)]"
    by code_simp
next
  fix center
  assume v: "validate_input center = Inr True"
  have "circle_loop center [] (- 0) 0 (2 - 2 * 0) 0 = Inr ([], 0)"
    by (simp add: circle_loop_exit)
  from get_circle_vectors_int(1) [OF v this]
  show "get_circle_vectors center (PInt 0) False = Inr []" .
qed

theorem get_circle_vectors_fixtures_witness:
  "validate_input (PTuple [PInt 42, PInt 42]) = Inr True
   \<and> get_circle_vectors (PTuple [PInt 42, PInt 42]) (PInt 0) False = Inr []"
proof -
  have v: "validate_input (PTuple [PInt 42, PInt 42]) = Inr True"
    by (simp add: validate_input_def is_indexable_def)
  from get_circle_vectors_fixtures v show ?thesis
    by blast
qed

subsection \<open>C5: the perimeter loop terminates\<close>

text \<open>
  C5: for every center \<open>(cx, cy)\<close> that passes validation and every integer radius, the
  loop \<^verbatim>\<open>while x < 0\<close> is left after finitely many passes: some number \<open>n\<close> of passes
  reaches a state with \<open>x \<ge> 0\<close>, the loop returns the value of \<^verbatim>\<open>radius\<close> of that state,
  and \<^verbatim>\<open>get_circle_vectors\<close> returns a result, for either value of \<^verbatim>\<open>fill\<close>. (The function
  \<open>circle_loop\<close> itself is defined with a termination proof over all states of the
  loop variables.)
\<close>

theorem perimeter_loop_terminates:
  assumes "validate_input center = Inr True" and "has_coords center cx cy"
  shows "\<exists>n vs. 0 \<le> fst (loop_iter n (- r, 0, 2 - 2 * r, r))
           \<and> circle_loop center [] (- r) 0 (2 - 2 * r) r =
               Inr (vs, snd (snd (snd (loop_iter n (- r, 0, 2 - 2 * r, r)))))
           \<and> (\<exists>res. get_circle_vectors center (PInt r) fill = Inr res)"
proof -
  from circle_loop_int [OF assms, of "- r" 0 "2 - 2 * r" r "[]"]
  obtain n vs where n: "0 \<le> fst (loop_iter n (- r, 0, 2 - 2 * r, r))"
    and loop: "circle_loop center [] (- r) 0 (2 - 2 * r) r =
                 Inr (vs, snd (snd (snd (loop_iter n (- r, 0, 2 - 2 * r, r)))))"
    by auto
  from inside_total [OF assms]
  obtain inside where ins: "get_vectors_inside_circle center
      (PInt (snd (snd (snd (loop_iter n (- r, 0, 2 - 2 * r, r)))))) = Inr inside"
    by blast
  from get_circle_vectors_int [OF assms(1) loop] ins
  have "\<exists>res. get_circle_vectors center (PInt r) fill = Inr res"
    by (cases fill) simp_all
  with n loop show ?thesis
    by blast
qed

theorem perimeter_loop_terminates_witness:
  "validate_input (PTuple [PInt 50, PInt 50]) = Inr True
   \<and> has_coords (PTuple [PInt 50, PInt 50]) 50 50
   \<and> (\<exists>n vs. 0 \<le> fst (loop_iter n (- 2, 0, 2 - 2 * 2, 2))
         \<and> circle_loop (PTuple [PInt 50, PInt 50]) [] (- 2) 0 (2 - 2 * 2) 2 =
              Inr (vs, snd (snd (snd (loop_iter n (- 2, 0, 2 - 2 * 2, 2)))))
         \<and> (\<exists>res. get_circle_vectors (PTuple [PInt 50, PInt 50]) (PInt 2) True = Inr res))"
proof -
  have v: "validate_input (PTuple [PInt 50, PInt 50]) = Inr True"
    by (simp add: validate_input_def is_indexable_def)
  have h: "has_coords (PTuple [PInt 50, PInt 50]) 50 50"
    by (simp add: has_coords_def)
  from perimeter_loop_terminates [OF v h, of 2 True] v h show ?thesis
    by blast
qed

subsection \<open>C6: the four points of the quadrant reflector\<close>

text \<open>
  C6: for every center \<open>(cx, cy)\<close> and offset \<open>(ox, oy)\<close> that both pass validation, the
  quadrant reflector returns exactly the four points \<open>(cx - ox, cy + oy)\<close>,
  \<open>(cx - oy, cy - ox)\<close>, \<open>(cx + ox, cy - oy)\<close>, \<open>(cx + oy, cy + ox)\<close>, in this order.
\<close>

theorem get_circle_quadrants_points:
  assumes "validate_input center = Inr True" and "validate_input offset = Inr True"
    and "has_coords center cx cy" and "has_coords offset ox oy"
  shows "get_circle_quadrants center offset =
           Inr [(cx - ox, cy + oy), (cx - oy, cy - ox), (cx + ox, cy - oy), (cx + oy, cy + ox)]"
  using assms by (rule quadrants_int)

theorem get_circle_quadrants_points_witness:
  "validate_input (PTuple [PInt 50, PInt 50]) = Inr True
   \<and> validate_input (PList [PInt (- 2), PInt 1]) = Inr True
   \<and> has_coords (PTuple [PInt 50, PInt 50]) 50 50
   \<and> has_coords (PList [PInt (- 2), PInt 1]) (- 2) 1
   \<and> get_circle_quadrants (PTuple [PInt 50, PInt 50]) (PList [PInt (- 2), PInt 1]) =
         Inr [(52, 51), (49, 52), (48, 49), (51, 48)]"
proof -
  have v1: "validate_input (PTuple [PInt 50, PInt 50]) = Inr True"
    and v2: "validate_input (PList [PInt (- 2), PInt 1]) = Inr True"
    by (simp_all add: validate_input_def is_indexable_def)
  have h1: "has_coords (PTuple [PInt 50, PInt 50]) 50 50"
    and h2: "has_coords (PList [PInt (- 2), PInt 1]) (- 2) 1"
    by (simp_all add: has_coords_def)
  from get_circle_quadrants_points [OF v1 v2 h1 h2] v1 v2 h1 h2 show ?thesis
    by simp
qed

subsection \<open>C7: the points of the interior scanner\<close>

text \<open>
  C7: for every center \<open>(cx, cy)\<close> that passes validation and every integer radius
  \<open>r \<ge> 0\<close>, the interior scanner returns exactly the points \<open>(cx + dx, cy + dy)\<close> with
  \<open>dx\<close>, \<open>dy\<close> in \<open>[-r, r]\<close> and \<open>dx\<^sup>2 + dy\<^sup>2 \<le> r\<^sup>2\<close>, with \<open>dy\<close> ascending in the outer loop
  and \<open>dx\<close> ascending in the inner loop; for radius 0 the result is the single point
  \<open>(cx, cy)\<close>.
\<close>

theorem get_vectors_inside_circle_points:
  assumes "validate_input center = Inr True" and "has_coords center cx cy" and "0 \<le> r"
  shows "get_vectors_inside_circle center (PInt r) =
           Inr [(cx + dx, cy + dy). dy \<leftarrow> [- r..r], dx \<leftarrow> [- r..r], dx ^ 2 + dy ^ 2 \<le> r ^ 2]
         \<and> get_vectors_inside_circle center (PInt 0) = Inr [(cx, cy)]"
  using inside_int [OF assms(1,2), of r] inside_int [OF assms(1,2), of 0] by simp

theorem get_vectors_inside_circle_points_witness:
  "validate_input (PTuple [PInt 25, PInt 25]) = Inr True
   \<and> has_coords (PTuple [PInt 25, PInt 25]) 25 25 \<and> (0::int) \<le> 1
   \<and> get_vectors_inside_circle (PTuple [PInt 25, PInt 25]) (PInt 1) =
        Inr [(25, 24), (24, 25), (25, 25), (26, 25), (25, 26)]
   \<and> get_vectors_inside_circle (PTuple [PInt 25, PInt 25]) (PInt 0) = Inr [(25, 25)]"
proof -
  have v: "validate_input (PTuple [PInt 25, PInt 25]) = Inr True"
    by (simp add: validate_input_def is_indexable_def)
  have h: "has_coords (PTuple [PInt 25, PInt 25]) 25 25"
    by (simp add: has_coords_def)
  have r: "(0::int) \<le> 1"
    by simp
  have u: "[- 1..1] = [- 1, 0, 1::int]"
    by (simp add: upto.simps)
  from get_vectors_inside_circle_points [OF v h r] v h show ?thesis
    by (simp add: u)
qed

subsection \<open>C8: a radius that is not integer-convertible, at the interior scanner\<close>

text \<open>
  C8 says that for every center that passes validation and every radius that is not
  integer-convertible, the interior scanner returns the empty sequence and raises no
  error. Where \<^verbatim>\<open>_is_int(radius)\<close> returns false the code does so
  (\<open>inside_bad_radius\<close>, as in the doctest with the radius \<^verbatim>\<open>"c"\<close>). An infinite float
  cannot be converted to an integer either, but \<^verbatim>\<open>int()\<close> raises an \<^verbatim>\<open>OverflowError\<close> on
  it, which \<^verbatim>\<open>_is_int\<close> does not catch: at the center \<^verbatim>\<open>(42, 42)\<close> and the radius
  \<^verbatim>\<open>float('inf')\<close> the scanner raises instead of returning the empty sequence.
\<close>

theorem get_vectors_inside_circle_infinite_radius:
  "validate_input (PTuple [PInt 42, PInt 42]) = Inr True
   \<and> is_int (PFloat PosInf) = Inl OverflowError
   \<and> get_vectors_inside_circle (PTuple [PInt 42, PInt 42]) (PFloat PosInf) = Inl OverflowError
   \<and> get_vectors_inside_circle (PTuple [PInt 42, PInt 42]) (PStr ''c'') = Inr []"
  by (simp add: get_vectors_inside_circle_def bind_err_def validate_input_def
      is_indexable_def int_literal_def strip_def is_space_def is_digit_def)

subsection \<open>C9: the length of the perimeter is a multiple of 4\<close>

text \<open>
  C9: for every center \<open>(cx, cy)\<close> that passes validation and every integer radius, with
  \<^verbatim>\<open>fill\<close> false \<^verbatim>\<open>get_circle_vectors\<close> returns a sequence whose length is a multiple of 4.
\<close>

theorem perimeter_length_multiple_of_four:
  assumes "validate_input center = Inr True" and "has_coords center cx cy"
  shows "\<exists>vs. get_circle_vectors center (PInt r) False = Inr vs \<and> 4 dvd length vs"
proof -
  from circle_loop_int [OF assms, of "- r" 0 "2 - 2 * r" r "[]"]
  obtain vs rad where len: "4 dvd length vs"
    and loop: "circle_loop center [] (- r) 0 (2 - 2 * r) r = Inr (vs, rad)"
    by auto
  from get_circle_vectors_int(1) [OF assms(1) loop] len show ?thesis
    by blast
qed

theorem perimeter_length_multiple_of_four_witness:
  "validate_input (PTuple [PInt 50, PInt 50]) = Inr True
   \<and> has_coords (PTuple [PInt 50, PInt 50]) 50 50
   \<and> (\<exists>vs. get_circle_vectors (PTuple [PInt 50, PInt 50]) (PInt 2) False = Inr vs
            \<and> 4 dvd length vs)"
proof -
  have v: "validate_input (PTuple [PInt 50, PInt 50]) = Inr True"
    by (simp add: validate_input_def is_indexable_def)
  have h: "has_coords (PTuple [PInt 50, PInt 50]) 50 50"
    by (simp add: has_coords_def)
  from perimeter_length_multiple_of_four [OF v h, of 2] v h show ?thesis
    by blast
qed

subsection \<open>C10: negative radius\<close>

text \<open>
  C10: for every center that passes validation and every negative integer radius,
  \<^verbatim>\<open>get_circle_vectors\<close> returns the empty sequence, for \<^verbatim>\<open>fill\<close> false and for \<^verbatim>\<open>fill\<close>
  true: the loop is not entered and the range of the fill scan is empty.
\<close>

theorem negative_radius_empty:
  assumes "validate_input center = Inr True" and "r < 0"
  shows "get_circle_vectors center (PInt r) False = Inr []
         \<and> get_circle_vectors center (PInt r) True = Inr []"
proof -
  from assms(2) have "circle_loop center [] (- r) 0 (2 - 2 * r) r = Inr ([], r)"
    by (simp add: circle_loop_exit)
  from get_circle_vectors_int [OF assms(1) this] inside_negative [OF assms]
  show ?thesis by simp
qed

theorem negative_radius_empty_witness:
  "validate_input (PTuple [PInt 42, PInt 42]) = Inr True \<and> (- 3::int) < 0
   \<and> get_circle_vectors (PTuple [PInt 42, PInt 42]) (PInt (- 3)) False = Inr []
   \<and> get_circle_vectors (PTuple [PInt 42, PInt 42]) (PInt (- 3)) True = Inr []"
proof -
  have v: "validate_input (PTuple [PInt 42, PInt 42]) = Inr True"
    by (simp add: validate_input_def is_indexable_def)
  have r: "(- 3::int) < 0"
    by simp
  from negative_radius_empty [OF v r] v show ?thesis
    by simp
qed

end
